theory Spec2Isabelle
  imports Main "HOL-Library.Word"
begin

section \<open>JavaScript values\<close>

text \<open>
  A JavaScript string is a sequence of UTF-16 code units, a byte buffer a sequence of
  octets. \<open>str\<close> writes an ASCII literal as such a string. Numbers that \<open>account.js\<close>
  handles (nonces, token amounts) are integral and are modelled by \<open>int\<close>. A thrown
  value is an \<open>error\<close>; an \<open>async\<close> function that rejects returns \<open>Inl\<close> of it.
\<close>

type_synonym js_string = "16 word list"

type_synonym bytes = "8 word list"

definition str :: "string \<Rightarrow> js_string" where
  "str s = map of_char s"

datatype error = Error string | TypeError string

subsection \<open>\<open>Buffer.from(string)\<close>: the UTF-8 bytes of a string\<close>

text \<open>
  The runtime's \<open>Buffer.from\<close> with its default encoding: every code point becomes one
  to four octets, a surrogate pair is one code point, and a surrogate that is not part of
  a pair becomes U+FFFD.
\<close>

definition is_high_surrogate :: "16 word \<Rightarrow> bool" where
  "is_high_surrogate u \<longleftrightarrow> 0xD800 \<le> u \<and> u \<le> 0xDBFF"

definition is_low_surrogate :: "16 word \<Rightarrow> bool" where
  "is_low_surrogate u \<longleftrightarrow> 0xDC00 \<le> u \<and> u \<le> 0xDFFF"

definition utf8_code_point :: "nat \<Rightarrow> bytes" where
  "utf8_code_point c =
     (if c < 0x80 then [of_nat c]
      else if c < 0x800 then [of_nat (0xC0 + c div 0x40), of_nat (0x80 + c mod 0x40)]
      else if c < 0x10000 then
        [of_nat (0xE0 + c div 0x1000), of_nat (0x80 + c div 0x40 mod 0x40),
         of_nat (0x80 + c mod 0x40)]
      else
        [of_nat (0xF0 + c div 0x40000), of_nat (0x80 + c div 0x1000 mod 0x40),
         of_nat (0x80 + c div 0x40 mod 0x40), of_nat (0x80 + c mod 0x40)])"

definition utf8_code_unit :: "16 word \<Rightarrow> bytes" where
  "utf8_code_unit u =
     (if is_high_surrogate u \<or> is_low_surrogate u then [0xEF, 0xBF, 0xBD]
      else utf8_code_point (unat u))"

fun Buffer_from :: "js_string \<Rightarrow> bytes" where
  "Buffer_from [] = []"
| "Buffer_from [u] = utf8_code_unit u"
| "Buffer_from (u # v # ws) =
     (if is_high_surrogate u \<and> is_low_surrogate v
      then utf8_code_point (0x10000 + (unat u - 0xD800) * 0x400 + (unat v - 0xDC00))
             @ Buffer_from ws
      else utf8_code_unit u @ Buffer_from (v # ws))"

section \<open>Base58 (\<open>bs58\<close> and \<open>KeyPair.encodeBufferInBs58\<close>)\<close>

text \<open>
  Modelled from the spec: the base58 helper "byte-buffer \<rightarrow> base58 string and inverse,
  used uniformly for all key material". Neither the \<open>bs58\<close> package nor
  \<open>signing/key_pair\<close> is among the sources; this is base58 over the alphabet that leaves
  out the visually ambiguous characters: every leading zero octet is one leading \<open>1\<close>,
  the remaining octets are one big-endian number written in base 58.
\<close>

definition ALPHABET :: js_string where
  "ALPHABET = str ''123456789ABCDEFGHJKLMNPQRSTUVWXYZabcdefghijkmnopqrstuvwxyz''"

definition LEADER :: "16 word" where
  "LEADER = ALPHABET ! 0"

function to_base :: "nat \<Rightarrow> nat \<Rightarrow> nat list" where
  "to_base b n = (if n = 0 \<or> b < 2 then [] else to_base b (n div b) @ [n mod b])"
  by pat_completeness auto
termination
  by (relation "measure snd") auto

definition from_base :: "nat \<Rightarrow> nat list \<Rightarrow> nat" where
  "from_base b ds = foldl (\<lambda>acc d. acc * b + d) 0 ds"

definition ALPHABET_MAP :: "16 word \<Rightarrow> nat" where
  "ALPHABET_MAP c = length (takeWhile (\<lambda>a. a \<noteq> c) ALPHABET)"

definition bs58_encode :: "bytes \<Rightarrow> js_string" where
  "bs58_encode source =
     replicate (length (takeWhile (\<lambda>b. b = 0) source)) LEADER
     @ map (\<lambda>d. ALPHABET ! d)
         (to_base 58 (from_base 256 (map unat (dropWhile (\<lambda>b. b = 0) source))))"

definition bs58_decode :: "js_string \<Rightarrow> error + bytes" where
  "bs58_decode string =
     (if \<exists>c \<in> set string. c \<notin> set ALPHABET then Inl (Error ''Non-base58 character'')
      else Inr (replicate (length (takeWhile (\<lambda>c. c = LEADER) string)) 0
                @ map of_nat
                    (to_base 256
                       (from_base 58
                          (map ALPHABET_MAP (dropWhile (\<lambda>c. c = LEADER) string))))))"

definition encodeBufferInBs58 :: "bytes \<Rightarrow> js_string" where
  "encodeBufferInBs58 buffer = bs58_encode buffer"

section \<open>Key pairs\<close>

text \<open>
  Modelled from the spec: \<open>KeyPair\<close> of \<open>signing/key_pair\<close>, which is not among the
  sources. A key pair holds the raw public and secret key; \<open>getPublicKey\<close> exposes the
  public key as a base58 string.
\<close>

record KeyPair =
  publicKey :: bytes
  secretKey :: bytes

definition getPublicKey :: "KeyPair \<Rightarrow> js_string" where
  "getPublicKey kp = encodeBufferInBs58 (KeyPair.publicKey kp)"

datatype js_value =
  JString js_string | JNumber int | JBool bool | JBytes bytes | JKeyPair KeyPair

type_synonym js_object = "js_string \<rightharpoonup> js_value"

section \<open>Transaction payloads (\<open>protos\<close>)\<close>

text \<open>
  Modelled from the spec: the message types of \<open>protos\<close>, which is not among the
  sources. An AccessKey has an optional contract id, method name, balance owner and
  amount; a transaction is one of CreateAccount (nonce, originator, new account id,
  public key, optional amount), AddKey (nonce, originator, new key, optional access key)
  and DeleteKey (nonce, originator, current key). \<open>create\<close> of a message type copies
  the properties it is given and leaves out those that are \<open>undefined\<close>; a field that
  was never set is \<open>None\<close>. The wrappers \<open>StringValue\<close> and \<open>BytesValue\<close> carry one
  value each.
\<close>

record AccessKey =
  contractId :: "js_string option"
  methodName :: "bytes option"
  balanceOwner :: "js_string option"
  amount :: "int option"

record CreateAccountTransaction =
  nonce :: int
  originator :: js_string
  newAccountId :: js_string
  publicKey :: bytes
  amount :: "int option"

record AddKeyTransaction =
  nonce :: int
  originator :: js_string
  newKey :: bytes
  accessKey :: "AccessKey option"

record DeleteKeyTransaction =
  nonce :: int
  originator :: js_string
  curKey :: bytes

datatype Transaction =
  CreateAccount CreateAccountTransaction
| AddKey AddKeyTransaction
| DeleteKey DeleteKeyTransaction

definition AccessKey_create :: AccessKey where
  "AccessKey_create =
     \<lparr>AccessKey.contractId = None, AccessKey.methodName = None,
      AccessKey.balanceOwner = None, AccessKey.amount = None\<rparr>"

section \<open>The client (\<open>nearClient\<close>)\<close>

text \<open>
  The client is the collaborator every operation goes through; it is given to the
  account when the account is built and is a parameter here. Its asynchronous methods
  act on the state \<open>'s\<close> of the world beyond this layer (the node, the network) and
  either reject with an error or resolve to a value; \<open>decodeResponseValue\<close> is
  synchronous and may throw. The decoded response is an object: its entries in the
  order of its keys, each a pair of the stored key bytes and the access key.
\<close>

record QueryResult =
  "value" :: js_string

record RpcResponse =
  response :: QueryResult

record AccessKeyInfo =
  contract_id :: "js_string option"
  amount :: int

type_synonym decoded = "(js_string \<times> (bytes \<times> AccessKeyInfo)) list"

record 's NearClient =
  getNonce :: "js_string \<Rightarrow> 's \<Rightarrow> (error + int) \<times> 's"
  signAndSubmitTransaction :: "js_string \<Rightarrow> Transaction \<Rightarrow> 's \<Rightarrow> (error + js_object) \<times> 's"
  viewAccount :: "js_string \<Rightarrow> 's \<Rightarrow> (error + js_object) \<times> 's"
  jsonRpcRequest :: "js_string \<Rightarrow> js_value list \<Rightarrow> 's \<Rightarrow> (error + RpcResponse) \<times> 's"
  decodeResponseValue :: "js_string \<Rightarrow> error + decoded"

section \<open>\<open>Account\<close>\<close>

text \<open>
  Each operation is one sequential chain of calls to the client. A parameter or local
  variable of the source whose name is also a field of a payload carries a prime here.
\<close>

record 's Account =
  nearClient :: "'s NearClient"

definition createAccount ::
  "'s Account \<Rightarrow> js_string \<Rightarrow> js_string \<Rightarrow> int \<Rightarrow> js_string \<Rightarrow> 's \<Rightarrow> (error + js_object) \<times> 's"
where
  "createAccount this newAccountId' publicKey' amount' originator' s =
     (case NearClient.getNonce (nearClient this) originator' s of
        (Inl e, s1) \<Rightarrow> (Inl e, s1)
      | (Inr nonce', s1) \<Rightarrow>
          (case bs58_decode publicKey' of
             Inl e \<Rightarrow> (Inl e, s1)
           | Inr publicKey' \<Rightarrow>
               (let createAccount =
                      \<lparr>CreateAccountTransaction.nonce = nonce',
                       CreateAccountTransaction.originator = originator',
                       CreateAccountTransaction.newAccountId = newAccountId',
                       CreateAccountTransaction.publicKey = publicKey',
                       CreateAccountTransaction.amount = None\<rparr>;
                    createAccount =
                      (if amount' \<noteq> 0
                       then createAccount\<lparr>CreateAccountTransaction.amount := Some amount'\<rparr>
                       else createAccount)
                in NearClient.signAndSubmitTransaction (nearClient this) originator'
                     (CreateAccount createAccount) s1)))"

definition addAccessKey ::
  "'s Account \<Rightarrow> js_string \<Rightarrow> js_string \<Rightarrow> js_string \<Rightarrow> js_string \<Rightarrow> js_string \<Rightarrow> int \<Rightarrow> 's
     \<Rightarrow> (error + js_object) \<times> 's"
where
  "addAccessKey this ownersAccountId newPublicKey contractId' methodName' fundingOwner
       fundingAmount s =
     (case NearClient.getNonce (nearClient this) ownersAccountId s of
        (Inl e, s1) \<Rightarrow> (Inl e, s1)
      | (Inr nonce', s1) \<Rightarrow>
          (case bs58_decode newPublicKey of
             Inl e \<Rightarrow> (Inl e, s1)
           | Inr newPublicKey \<Rightarrow>
               (let accessKey' =
                      (if contractId' \<noteq> [] then
                         (let accessKey' = AccessKey_create;
                              accessKey' = accessKey'\<lparr>AccessKey.contractId := Some contractId'\<rparr>;
                              accessKey' =
                                (if methodName' \<noteq> []
                                 then accessKey'
                                        \<lparr>AccessKey.methodName := Some (Buffer_from methodName')\<rparr>
                                 else accessKey');
                              accessKey' =
                                (if fundingOwner \<noteq> []
                                 then accessKey'\<lparr>AccessKey.balanceOwner := Some fundingOwner\<rparr>
                                 else accessKey');
                              accessKey' =
                                (if fundingAmount > 0
                                 then accessKey'\<lparr>AccessKey.amount := Some fundingAmount\<rparr>
                                 else accessKey')
                          in Some accessKey')
                       else None);
                    addKey =
                      \<lparr>AddKeyTransaction.nonce = nonce',
                       AddKeyTransaction.originator = ownersAccountId,
                       AddKeyTransaction.newKey = newPublicKey,
                       AddKeyTransaction.accessKey = accessKey'\<rparr>
                in NearClient.signAndSubmitTransaction (nearClient this) ownersAccountId
                     (AddKey addKey) s1)))"

definition removeAccessKey ::
  "'s Account \<Rightarrow> js_string \<Rightarrow> js_string \<Rightarrow> 's \<Rightarrow> (error + js_object) \<times> 's"
where
  "removeAccessKey this ownersAccountId publicKey' s =
     (case NearClient.getNonce (nearClient this) ownersAccountId s of
        (Inl e, s1) \<Rightarrow> (Inl e, s1)
      | (Inr nonce', s1) \<Rightarrow>
          (case bs58_decode publicKey' of
             Inl e \<Rightarrow> (Inl e, s1)
           | Inr decodedKey \<Rightarrow>
               NearClient.signAndSubmitTransaction (nearClient this) ownersAccountId
                 (DeleteKey
                    \<lparr>DeleteKeyTransaction.nonce = nonce',
                     DeleteKeyTransaction.originator = ownersAccountId,
                     DeleteKeyTransaction.curKey = decodedKey\<rparr>) s1))"

text \<open>
  \<open>KeyPair.fromRandomSeed\<close> draws a key pair from the entropy of the world; it is the
  first argument here. The object literal \<open>{ key: keyWithRandomSeed,
  ...createAccountResult }\<close> first sets \<open>key\<close> and then copies every property of the
  result, a property \<open>key\<close> included, over what is there.
\<close>

definition createAccountWithRandomKey ::
  "('s \<Rightarrow> KeyPair \<times> 's) \<Rightarrow> 's Account \<Rightarrow> js_string \<Rightarrow> int \<Rightarrow> js_string \<Rightarrow> 's
     \<Rightarrow> (error + js_object) \<times> 's"
where
  "createAccountWithRandomKey fromRandomSeed this newAccountId' amount' originatorAccountId s =
     (case fromRandomSeed s of
        (keyWithRandomSeed, s0) \<Rightarrow>
          (case createAccount this newAccountId' (getPublicKey keyWithRandomSeed) amount'
                  originatorAccountId s0 of
             (Inl e, s1) \<Rightarrow> (Inl e, s1)
           | (Inr createAccountResult, s1) \<Rightarrow>
               (Inr ([str ''key'' \<mapsto> JKeyPair keyWithRandomSeed] ++ createAccountResult), s1)))"

definition viewAccount :: "'s Account \<Rightarrow> js_string \<Rightarrow> 's \<Rightarrow> (error + js_object) \<times> 's" where
  "viewAccount this accountId s = NearClient.viewAccount (nearClient this) accountId s"

record AuthorizedApp =
  contractId :: "js_string option"
  amount :: int
  publicKey :: js_string

record AccountDetails =
  authorizedApps :: "AuthorizedApp list"
  transactions :: "js_value list"

definition Object_keys :: "decoded \<Rightarrow> js_string list" where
  "Object_keys obj = map fst obj"

text \<open>
  The body of \<open>forEach\<close> in \<open>getAccountDetails\<close>: one push for every key. Reading a
  component of a property that is not there throws a \<open>TypeError\<close>.
\<close>

fun forEach_push ::
  "decoded \<Rightarrow> js_string list \<Rightarrow> AuthorizedApp list \<Rightarrow> error + AuthorizedApp list"
where
  "forEach_push decodedResponse [] apps = Inr apps"
| "forEach_push decodedResponse (key # keys) apps =
     (case map_of decodedResponse key of
        None \<Rightarrow> Inl (TypeError ''Cannot read property of undefined'')
      | Some (buffer, info) \<Rightarrow>
          forEach_push decodedResponse keys
            (apps @ [\<lparr>AuthorizedApp.contractId = contract_id info,
                      AuthorizedApp.amount = AccessKeyInfo.amount info,
                      AuthorizedApp.publicKey = encodeBufferInBs58 buffer\<rparr>]))"

definition getAccountDetails ::
  "'s Account \<Rightarrow> js_string \<Rightarrow> 's \<Rightarrow> (error + AccountDetails) \<times> 's"
where
  "getAccountDetails this accountId s =
     (case NearClient.jsonRpcRequest (nearClient this) (str ''abci_query'')
             [JString (str ''access_key/'' @ accountId), JString [],
              JString (str ''0''), JBool False] s of
        (Inl e, s1) \<Rightarrow> (Inl e, s1)
      | (Inr response', s1) \<Rightarrow>
          (case NearClient.decodeResponseValue (nearClient this)
                  (QueryResult.value (RpcResponse.response response')) of
             Inl e \<Rightarrow> (Inl e, s1)
           | Inr decodedResponse \<Rightarrow>
               (case forEach_push decodedResponse (Object_keys decodedResponse) [] of
                  Inl e \<Rightarrow> (Inl e, s1)
                | Inr apps \<Rightarrow>
                    (Inr \<lparr>authorizedApps = apps, transactions = []\<rparr>, s1))))"

section \<open>A client that records its calls\<close>

text \<open>
  A stub of the client for concrete runs: its state is the list of calls made so far.
  \<open>getNonce\<close> resolves to 7 for \<open>alice\<close> and rejects for every other account; a
  submission resolves or rejects as given when the stub is built. Every request of the
  offline client is rejected.
\<close>

datatype call =
  GetNonce js_string
| SignAndSubmitTransaction js_string Transaction
| ViewAccount js_string
| JsonRpcRequest js_string "js_value list"

definition stubClient :: "error + js_object \<Rightarrow> decoded \<Rightarrow> call list NearClient" where
  "stubClient submitted stored =
     \<lparr>getNonce = (\<lambda>a s. (if a = str ''alice'' then Inr 7
                           else Inl (Error ''account does not exist''), s @ [GetNonce a])),
      signAndSubmitTransaction = (\<lambda>a t s. (submitted, s @ [SignAndSubmitTransaction a t])),
      viewAccount = (\<lambda>a s. (Inr [str ''account_id'' \<mapsto> JString a], s @ [ViewAccount a])),
      jsonRpcRequest =
        (\<lambda>m ps s. (if m = str ''abci_query''
                    then Inr \<lparr>response = \<lparr>value = str ''stored''\<rparr>\<rparr>
                    else Inl (Error ''unknown method''), s @ [JsonRpcRequest m ps])),
      decodeResponseValue = (\<lambda>v. Inr stored)\<rparr>"

definition offlineClient :: "call list NearClient" where
  "offlineClient =
     \<lparr>getNonce = (\<lambda>a s. (Inl (Error ''connection refused''), s @ [GetNonce a])),
      signAndSubmitTransaction =
        (\<lambda>a t s. (Inl (Error ''connection refused''), s @ [SignAndSubmitTransaction a t])),
      viewAccount = (\<lambda>a s. (Inl (Error ''connection refused''), s @ [ViewAccount a])),
      jsonRpcRequest =
        (\<lambda>m ps s. (Inl (Error ''connection refused''), s @ [JsonRpcRequest m ps])),
      decodeResponseValue = (\<lambda>v. Inl (Error ''nothing to decode''))\<rparr>"

definition completed :: js_object where
  "completed = [str ''status'' \<mapsto> JString (str ''Completed'')]"

text \<open>
  For concrete runs of \<open>createAccountWithRandomKey\<close>: an entropy source that always
  gives the same key pair, a submission result with a property \<open>key\<close> of its own, and
  the reading of a property of a returned object.
\<close>

definition returned_field :: "(error + js_object) \<times> 's \<Rightarrow> js_string \<Rightarrow> js_value option" where
  "returned_field r f = (case fst r of Inl e \<Rightarrow> None | Inr obj \<Rightarrow> obj f)"

definition keyPair0 :: KeyPair where
  "keyPair0 = \<lparr>KeyPair.publicKey = [97], secretKey = [1, 2, 3]\<rparr>"

definition fixedSeed :: "call list \<Rightarrow> KeyPair \<times> call list" where
  "fixedSeed s = (keyPair0, s)"

definition keyed :: js_object where
  "keyed = [str ''status'' \<mapsto> JString (str ''Completed''), str ''key'' \<mapsto> JString (str ''k1'')]"

section \<open>The bytes of a string\<close>

text \<open>
  One, two, three and four octets for a code point, and U+FFFD for a surrogate that has
  no partner: \<open>hi\<close>, U+00E9, U+20AC, U+1F600 and a lone low surrogate.
\<close>

lemma Buffer_from_example:
  "Buffer_from (str ''hi'' @ [0xE9, 0x20AC, 0xD83D, 0xDE00, 0xDC00]) =
     [0x68, 0x69, 0xC3, 0xA9, 0xE2, 0x82, 0xAC, 0xF0, 0x9F, 0x98, 0x80, 0xEF, 0xBF, 0xBD]"
  by (simp add: str_def utf8_code_unit_def utf8_code_point_def is_high_surrogate_def
        is_low_surrogate_def)

section \<open>\<open>createAccount\<close>: the amount field\<close>

text \<open>
  Claim C1. Once the nonce is fetched and the public key decoded, \<open>createAccount\<close>
  submits a CreateAccount payload that has no amount field when the amount is zero, and
  whose amount field is exactly \<open>k\<close> when the amount is \<open>k > 0\<close>.
\<close>

theorem createAccount_amount_field:
  assumes "NearClient.getNonce (nearClient this) orig s = (Inr n, s1)"
    and "bs58_decode pk = Inr kb"
  shows "createAccount this new pk 0 orig s =
           NearClient.signAndSubmitTransaction (nearClient this) orig
             (CreateAccount
                \<lparr>CreateAccountTransaction.nonce = n,
                 CreateAccountTransaction.originator = orig,
                 CreateAccountTransaction.newAccountId = new,
                 CreateAccountTransaction.publicKey = kb,
                 CreateAccountTransaction.amount = None\<rparr>) s1
         \<and> (0 < k \<longrightarrow>
              createAccount this new pk k orig s =
                NearClient.signAndSubmitTransaction (nearClient this) orig
                  (CreateAccount
                     \<lparr>CreateAccountTransaction.nonce = n,
                      CreateAccountTransaction.originator = orig,
                      CreateAccountTransaction.newAccountId = new,
                      CreateAccountTransaction.publicKey = kb,
                      CreateAccountTransaction.amount = Some k\<rparr>) s1)"
  using assms by (simp add: createAccount_def)

theorem createAccount_amount_field_witness:
  "NearClient.getNonce (nearClient \<lparr>nearClient = stubClient (Inr completed) []\<rparr>)
       (str ''alice'') [] = (Inr 7, [GetNonce (str ''alice'')])
   \<and> bs58_decode (str ''2g'') = Inr [97]
   \<and> createAccount \<lparr>nearClient = stubClient (Inr completed) []\<rparr> (str ''bob'') (str ''2g'') 0
         (str ''alice'') [] =
       (Inr completed,
        [GetNonce (str ''alice''),
         SignAndSubmitTransaction (str ''alice'')
           (CreateAccount
              \<lparr>CreateAccountTransaction.nonce = 7,
               CreateAccountTransaction.originator = str ''alice'',
               CreateAccountTransaction.newAccountId = str ''bob'',
               CreateAccountTransaction.publicKey = [97],
               CreateAccountTransaction.amount = None\<rparr>)])
   \<and> (0::int) < 1000
   \<and> createAccount \<lparr>nearClient = stubClient (Inr completed) []\<rparr> (str ''bob'') (str ''2g'') 1000
         (str ''alice'') [] =
       (Inr completed,
        [GetNonce (str ''alice''),
         SignAndSubmitTransaction (str ''alice'')
           (CreateAccount
              \<lparr>CreateAccountTransaction.nonce = 7,
               CreateAccountTransaction.originator = str ''alice'',
               CreateAccountTransaction.newAccountId = str ''bob'',
               CreateAccountTransaction.publicKey = [97],
               CreateAccountTransaction.amount = Some 1000\<rparr>)])"
proof -
  have nonce: "NearClient.getNonce (nearClient \<lparr>nearClient = stubClient (Inr completed) []\<rparr>)
      (str ''alice'') [] = (Inr 7, [GetNonce (str ''alice'')])"
    by (simp add: stubClient_def)
  have key: "bs58_decode (str ''2g'') = Inr [97]"
    by code_simp
  show ?thesis
    using createAccount_amount_field [OF nonce key, of "str ''bob''" 1000] nonce key
    by (simp add: stubClient_def)
qed

text \<open>
  Claim C9. A negative amount is not validated away: the test is \<open>amount !== 0\<close>, so
  for every \<open>k < 0\<close> the amount field is set to \<open>k\<close> and the payload is submitted.
\<close>

theorem createAccount_negative_amount:
  assumes "NearClient.getNonce (nearClient this) orig s = (Inr n, s1)"
    and "bs58_decode pk = Inr kb"
    and "k < 0"
  shows "createAccount this new pk k orig s =
           NearClient.signAndSubmitTransaction (nearClient this) orig
             (CreateAccount
                \<lparr>CreateAccountTransaction.nonce = n,
                 CreateAccountTransaction.originator = orig,
                 CreateAccountTransaction.newAccountId = new,
                 CreateAccountTransaction.publicKey = kb,
                 CreateAccountTransaction.amount = Some k\<rparr>) s1"
  using assms by (simp add: createAccount_def)

theorem createAccount_negative_amount_witness:
  "NearClient.getNonce (nearClient \<lparr>nearClient = stubClient (Inr completed) []\<rparr>)
       (str ''alice'') [] = (Inr 7, [GetNonce (str ''alice'')])
   \<and> bs58_decode (str ''2g'') = Inr [97]
   \<and> (- 5 :: int) < 0
   \<and> createAccount \<lparr>nearClient = stubClient (Inr completed) []\<rparr> (str ''bob'') (str ''2g'')
         (- 5) (str ''alice'') [] =
       (Inr completed,
        [GetNonce (str ''alice''),
         SignAndSubmitTransaction (str ''alice'')
           (CreateAccount
              \<lparr>CreateAccountTransaction.nonce = 7,
               CreateAccountTransaction.originator = str ''alice'',
               CreateAccountTransaction.newAccountId = str ''bob'',
               CreateAccountTransaction.publicKey = [97],
               CreateAccountTransaction.amount = Some (- 5)\<rparr>)])"
proof -
  have nonce: "NearClient.getNonce (nearClient \<lparr>nearClient = stubClient (Inr completed) []\<rparr>)
      (str ''alice'') [] = (Inr 7, [GetNonce (str ''alice'')])"
    by (simp add: stubClient_def)
  have key: "bs58_decode (str ''2g'') = Inr [97]"
    by code_simp
  have neg: "(- 5 :: int) < 0"
    by simp
  show ?thesis
    using createAccount_negative_amount [OF nonce key neg, of "str ''bob''"] nonce key
    by (simp add: stubClient_def)
qed

section \<open>\<open>addAccessKey\<close>: the access key\<close>

text \<open>
  Claim C2. With an empty \<open>contractId\<close> no AccessKey is built: the AddKey payload is
  submitted with no \<open>accessKey\<close>. With a non-empty \<open>contractId\<close> and an empty
  \<open>methodName\<close> the AccessKey of the payload has \<open>contractId\<close> set and no
  \<open>methodName\<close>.
\<close>

theorem addAccessKey_contractId:
  assumes "NearClient.getNonce (nearClient this) owner s = (Inr n, s1)"
    and "bs58_decode pk = Inr kb"
  shows "addAccessKey this owner pk [] m fo fa s =
           NearClient.signAndSubmitTransaction (nearClient this) owner
             (AddKey
                \<lparr>AddKeyTransaction.nonce = n,
                 AddKeyTransaction.originator = owner,
                 AddKeyTransaction.newKey = kb,
                 AddKeyTransaction.accessKey = None\<rparr>) s1
         \<and> (cid \<noteq> [] \<longrightarrow>
              addAccessKey this owner pk cid [] fo fa s =
                NearClient.signAndSubmitTransaction (nearClient this) owner
                  (AddKey
                     \<lparr>AddKeyTransaction.nonce = n,
                      AddKeyTransaction.originator = owner,
                      AddKeyTransaction.newKey = kb,
                      AddKeyTransaction.accessKey =
                        Some \<lparr>AccessKey.contractId = Some cid,
                              AccessKey.methodName = None,
                              AccessKey.balanceOwner = (if fo \<noteq> [] then Some fo else None),
                              AccessKey.amount = (if 0 < fa then Some fa else None)\<rparr>\<rparr>) s1)"
  using assms by (simp add: addAccessKey_def AccessKey_create_def)

theorem addAccessKey_contractId_witness:
  "NearClient.getNonce (nearClient \<lparr>nearClient = stubClient (Inr completed) []\<rparr>)
       (str ''alice'') [] = (Inr 7, [GetNonce (str ''alice'')])
   \<and> bs58_decode (str ''2g'') = Inr [97]
   \<and> addAccessKey \<lparr>nearClient = stubClient (Inr completed) []\<rparr> (str ''alice'') (str ''2g'')
         [] [] [] 0 [] =
       (Inr completed,
        [GetNonce (str ''alice''),
         SignAndSubmitTransaction (str ''alice'')
           (AddKey
              \<lparr>AddKeyTransaction.nonce = 7,
               AddKeyTransaction.originator = str ''alice'',
               AddKeyTransaction.newKey = [97],
               AddKeyTransaction.accessKey = None\<rparr>)])
   \<and> str ''contractX'' \<noteq> []
   \<and> addAccessKey \<lparr>nearClient = stubClient (Inr completed) []\<rparr> (str ''alice'') (str ''2g'')
         (str ''contractX'') [] [] 10 [] =
       (Inr completed,
        [GetNonce (str ''alice''),
         SignAndSubmitTransaction (str ''alice'')
           (AddKey
              \<lparr>AddKeyTransaction.nonce = 7,
               AddKeyTransaction.originator = str ''alice'',
               AddKeyTransaction.newKey = [97],
               AddKeyTransaction.accessKey =
                 Some \<lparr>AccessKey.contractId = Some (str ''contractX''),
                       AccessKey.methodName = None,
                       AccessKey.balanceOwner = None,
                       AccessKey.amount = Some 10\<rparr>\<rparr>)])"
proof -
  have nonce: "NearClient.getNonce (nearClient \<lparr>nearClient = stubClient (Inr completed) []\<rparr>)
      (str ''alice'') [] = (Inr 7, [GetNonce (str ''alice'')])"
    by (simp add: stubClient_def)
  have key: "bs58_decode (str ''2g'') = Inr [97]"
    by code_simp
  have cid: "str ''contractX'' \<noteq> []"
    by (simp add: str_def)
  show ?thesis
    using addAccessKey_contractId [OF nonce key, of "[]" "[]" 0 "str ''contractX''"]
      addAccessKey_contractId [OF nonce key, of "[]" "[]" 10 "str ''contractX''"] nonce key cid
    by (simp add: stubClient_def)
qed

text \<open>
  Claim C3. With a non-empty \<open>contractId\<close> the AccessKey always has \<open>contractId\<close>;
  it has \<open>methodName\<close>, the UTF-8 bytes of the method name, only if the method name is
  not empty; \<open>balanceOwner\<close> only if \<open>fundingOwner\<close> is not empty; and \<open>amount\<close> only
  if \<open>fundingAmount > 0\<close>.
\<close>

theorem addAccessKey_scoped_fields:
  assumes "NearClient.getNonce (nearClient this) owner s = (Inr n, s1)"
    and "bs58_decode pk = Inr kb"
    and "cid \<noteq> []"
  shows "addAccessKey this owner pk cid m fo fa s =
           NearClient.signAndSubmitTransaction (nearClient this) owner
             (AddKey
                \<lparr>AddKeyTransaction.nonce = n,
                 AddKeyTransaction.originator = owner,
                 AddKeyTransaction.newKey = kb,
                 AddKeyTransaction.accessKey =
                   Some \<lparr>AccessKey.contractId = Some cid,
                         AccessKey.methodName = (if m \<noteq> [] then Some (Buffer_from m) else None),
                         AccessKey.balanceOwner = (if fo \<noteq> [] then Some fo else None),
                         AccessKey.amount = (if 0 < fa then Some fa else None)\<rparr>\<rparr>) s1"
  using assms by (simp add: addAccessKey_def AccessKey_create_def)

theorem addAccessKey_scoped_fields_witness:
  "NearClient.getNonce (nearClient \<lparr>nearClient = stubClient (Inr completed) []\<rparr>)
       (str ''alice'') [] = (Inr 7, [GetNonce (str ''alice'')])
   \<and> bs58_decode (str ''2g'') = Inr [97]
   \<and> str ''contractX'' \<noteq> []
   \<and> addAccessKey \<lparr>nearClient = stubClient (Inr completed) []\<rparr> (str ''alice'') (str ''2g'')
         (str ''contractX'') (str ''hello'') (str ''app'') 10 [] =
       (Inr completed,
        [GetNonce (str ''alice''),
         SignAndSubmitTransaction (str ''alice'')
           (AddKey
              \<lparr>AddKeyTransaction.nonce = 7,
               AddKeyTransaction.originator = str ''alice'',
               AddKeyTransaction.newKey = [97],
               AddKeyTransaction.accessKey =
                 Some \<lparr>AccessKey.contractId = Some (str ''contractX''),
                       AccessKey.methodName = Some [104, 101, 108, 108, 111],
                       AccessKey.balanceOwner = Some (str ''app''),
                       AccessKey.amount = Some 10\<rparr>\<rparr>)])"
proof -
  have nonce: "NearClient.getNonce (nearClient \<lparr>nearClient = stubClient (Inr completed) []\<rparr>)
      (str ''alice'') [] = (Inr 7, [GetNonce (str ''alice'')])"
    by (simp add: stubClient_def)
  have key: "bs58_decode (str ''2g'') = Inr [97]"
    by code_simp
  have cid: "str ''contractX'' \<noteq> []"
    by (simp add: str_def)
  have name: "str ''hello'' \<noteq> [] \<and> Buffer_from (str ''hello'') = [104, 101, 108, 108, 111]"
    by code_simp
  have funding: "str ''app'' \<noteq> []"
    by (simp add: str_def)
  show ?thesis
    using addAccessKey_scoped_fields [OF nonce key cid, of "str ''hello''" "str ''app''" 10]
      nonce key cid name funding
    by (simp add: stubClient_def)
qed

text \<open>
  Claim C10. With an empty \<open>contractId\<close> a non-empty \<open>methodName\<close> is ignored: the
  payload carries no \<open>accessKey\<close>, and the operation goes on to the submission without
  an error of its own.
\<close>

theorem addAccessKey_methodName_ignored:
  assumes "NearClient.getNonce (nearClient this) owner s = (Inr n, s1)"
    and "bs58_decode pk = Inr kb"
    and "m \<noteq> []"
  shows "addAccessKey this owner pk [] m fo fa s =
           NearClient.signAndSubmitTransaction (nearClient this) owner
             (AddKey
                \<lparr>AddKeyTransaction.nonce = n,
                 AddKeyTransaction.originator = owner,
                 AddKeyTransaction.newKey = kb,
                 AddKeyTransaction.accessKey = None\<rparr>) s1"
  using assms by (simp add: addAccessKey_def)

theorem addAccessKey_methodName_ignored_witness:
  "NearClient.getNonce (nearClient \<lparr>nearClient = stubClient (Inr completed) []\<rparr>)
       (str ''alice'') [] = (Inr 7, [GetNonce (str ''alice'')])
   \<and> bs58_decode (str ''2g'') = Inr [97]
   \<and> str ''hello'' \<noteq> []
   \<and> addAccessKey \<lparr>nearClient = stubClient (Inr completed) []\<rparr> (str ''alice'') (str ''2g'')
         [] (str ''hello'') (str ''app'') 10 [] =
       (Inr completed,
        [GetNonce (str ''alice''),
         SignAndSubmitTransaction (str ''alice'')
           (AddKey
              \<lparr>AddKeyTransaction.nonce = 7,
               AddKeyTransaction.originator = str ''alice'',
               AddKeyTransaction.newKey = [97],
               AddKeyTransaction.accessKey = None\<rparr>)])"
proof -
  have nonce: "NearClient.getNonce (nearClient \<lparr>nearClient = stubClient (Inr completed) []\<rparr>)
      (str ''alice'') [] = (Inr 7, [GetNonce (str ''alice'')])"
    by (simp add: stubClient_def)
  have key: "bs58_decode (str ''2g'') = Inr [97]"
    by code_simp
  have name: "str ''hello'' \<noteq> []"
    by (simp add: str_def)
  show ?thesis
    using addAccessKey_methodName_ignored [OF nonce key name, of "str ''app''" 10] nonce key name
    by (simp add: stubClient_def)
qed

section \<open>What the operations submit\<close>

text \<open>
  Once the nonce is fetched and the key decoded, each of the three state-changing
  operations is exactly one submission, of the payload given here, in the state the nonce
  fetch left.
\<close>

lemma createAccount_submits:
  assumes "NearClient.getNonce (nearClient this) acct s = (Inr n, s1)"
    and "bs58_decode pk = Inr kb"
  shows "createAccount this new pk amt acct s =
           NearClient.signAndSubmitTransaction (nearClient this) acct
             (CreateAccount
                \<lparr>CreateAccountTransaction.nonce = n,
                 CreateAccountTransaction.originator = acct,
                 CreateAccountTransaction.newAccountId = new,
                 CreateAccountTransaction.publicKey = kb,
                 CreateAccountTransaction.amount = (if amt \<noteq> 0 then Some amt else None)\<rparr>) s1"
  using assms by (simp add: createAccount_def)

lemma addAccessKey_submits:
  assumes "NearClient.getNonce (nearClient this) acct s = (Inr n, s1)"
    and "bs58_decode pk = Inr kb"
  shows "addAccessKey this acct pk cid m fo fa s =
           NearClient.signAndSubmitTransaction (nearClient this) acct
             (AddKey
                \<lparr>AddKeyTransaction.nonce = n,
                 AddKeyTransaction.originator = acct,
                 AddKeyTransaction.newKey = kb,
                 AddKeyTransaction.accessKey =
                   (if cid \<noteq> [] then
                      Some \<lparr>AccessKey.contractId = Some cid,
                            AccessKey.methodName =
                              (if m \<noteq> [] then Some (Buffer_from m) else None),
                            AccessKey.balanceOwner = (if fo \<noteq> [] then Some fo else None),
                            AccessKey.amount = (if 0 < fa then Some fa else None)\<rparr>
                    else None)\<rparr>) s1"
  using assms by (simp add: addAccessKey_def AccessKey_create_def)

lemma removeAccessKey_submits:
  assumes "NearClient.getNonce (nearClient this) acct s = (Inr n, s1)"
    and "bs58_decode pk = Inr kb"
  shows "removeAccessKey this acct pk s =
           NearClient.signAndSubmitTransaction (nearClient this) acct
             (DeleteKey
                \<lparr>DeleteKeyTransaction.nonce = n,
                 DeleteKeyTransaction.originator = acct,
                 DeleteKeyTransaction.curKey = kb\<rparr>) s1"
  using assms by (simp add: removeAccessKey_def)

section \<open>The nonce\<close>

text \<open>
  Claim C4. In \<open>createAccount\<close>, \<open>addAccessKey\<close> and \<open>removeAccessKey\<close> the nonce of
  the payload is the value \<open>getNonce\<close> returned for the originator (owner), and the
  payload is submitted in the state the nonce fetch left: the fetch comes first.
\<close>

theorem nonce_fetched_then_submitted:
  assumes "NearClient.getNonce (nearClient this) acct s = (Inr n, s1)"
    and "bs58_decode pk = Inr kb"
  shows "(\<exists>a. createAccount this new pk amt acct s =
             NearClient.signAndSubmitTransaction (nearClient this) acct
               (CreateAccount
                  \<lparr>CreateAccountTransaction.nonce = n,
                   CreateAccountTransaction.originator = acct,
                   CreateAccountTransaction.newAccountId = new,
                   CreateAccountTransaction.publicKey = kb,
                   CreateAccountTransaction.amount = a\<rparr>) s1)
         \<and> (\<exists>k. addAccessKey this acct pk cid m fo fa s =
               NearClient.signAndSubmitTransaction (nearClient this) acct
                 (AddKey
                    \<lparr>AddKeyTransaction.nonce = n,
                     AddKeyTransaction.originator = acct,
                     AddKeyTransaction.newKey = kb,
                     AddKeyTransaction.accessKey = k\<rparr>) s1)
         \<and> removeAccessKey this acct pk s =
               NearClient.signAndSubmitTransaction (nearClient this) acct
                 (DeleteKey
                    \<lparr>DeleteKeyTransaction.nonce = n,
                     DeleteKeyTransaction.originator = acct,
                     DeleteKeyTransaction.curKey = kb\<rparr>) s1"
proof (intro conjI)
  show "\<exists>a. createAccount this new pk amt acct s =
      NearClient.signAndSubmitTransaction (nearClient this) acct
        (CreateAccount
           \<lparr>CreateAccountTransaction.nonce = n,
            CreateAccountTransaction.originator = acct,
            CreateAccountTransaction.newAccountId = new,
            CreateAccountTransaction.publicKey = kb,
            CreateAccountTransaction.amount = a\<rparr>) s1"
    by (rule exI) (rule createAccount_submits [OF assms])
next
  show "\<exists>k. addAccessKey this acct pk cid m fo fa s =
      NearClient.signAndSubmitTransaction (nearClient this) acct
        (AddKey
           \<lparr>AddKeyTransaction.nonce = n,
            AddKeyTransaction.originator = acct,
            AddKeyTransaction.newKey = kb,
            AddKeyTransaction.accessKey = k\<rparr>) s1"
    by (rule exI) (rule addAccessKey_submits [OF assms])
next
  show "removeAccessKey this acct pk s =
      NearClient.signAndSubmitTransaction (nearClient this) acct
        (DeleteKey
           \<lparr>DeleteKeyTransaction.nonce = n,
            DeleteKeyTransaction.originator = acct,
            DeleteKeyTransaction.curKey = kb\<rparr>) s1"
    by (rule removeAccessKey_submits [OF assms])
qed

theorem nonce_fetched_then_submitted_witness:
  "NearClient.getNonce (nearClient \<lparr>nearClient = stubClient (Inr completed) []\<rparr>)
       (str ''alice'') [] = (Inr 7, [GetNonce (str ''alice'')])
   \<and> bs58_decode (str ''2g'') = Inr [97]
   \<and> (\<exists>a. createAccount \<lparr>nearClient = stubClient (Inr completed) []\<rparr> (str ''bob'')
              (str ''2g'') 1000 (str ''alice'') [] =
            (Inr completed,
             [GetNonce (str ''alice''),
              SignAndSubmitTransaction (str ''alice'')
                (CreateAccount
                   \<lparr>CreateAccountTransaction.nonce = 7,
                    CreateAccountTransaction.originator = str ''alice'',
                    CreateAccountTransaction.newAccountId = str ''bob'',
                    CreateAccountTransaction.publicKey = [97],
                    CreateAccountTransaction.amount = a\<rparr>)]))
   \<and> (\<exists>k. addAccessKey \<lparr>nearClient = stubClient (Inr completed) []\<rparr> (str ''alice'')
              (str ''2g'') (str ''contractX'') [] [] 10 [] =
            (Inr completed,
             [GetNonce (str ''alice''),
              SignAndSubmitTransaction (str ''alice'')
                (AddKey
                   \<lparr>AddKeyTransaction.nonce = 7,
                    AddKeyTransaction.originator = str ''alice'',
                    AddKeyTransaction.newKey = [97],
                    AddKeyTransaction.accessKey = k\<rparr>)]))
   \<and> removeAccessKey \<lparr>nearClient = stubClient (Inr completed) []\<rparr> (str ''alice'')
         (str ''2g'') [] =
       (Inr completed,
        [GetNonce (str ''alice''),
         SignAndSubmitTransaction (str ''alice'')
           (DeleteKey
              \<lparr>DeleteKeyTransaction.nonce = 7,
               DeleteKeyTransaction.originator = str ''alice'',
               DeleteKeyTransaction.curKey = [97]\<rparr>)])"
proof -
  have nonce: "NearClient.getNonce (nearClient \<lparr>nearClient = stubClient (Inr completed) []\<rparr>)
      (str ''alice'') [] = (Inr 7, [GetNonce (str ''alice'')])"
    by (simp add: stubClient_def)
  have key: "bs58_decode (str ''2g'') = Inr [97]"
    by code_simp
  show ?thesis
    using nonce_fetched_then_submitted
            [OF nonce key, of "str ''bob''" 1000 "str ''contractX''" "[]" "[]" 10]
      nonce key
    by (simp add: stubClient_def)
qed

section \<open>Errors\<close>

text \<open>
  Claim C7. An error of the nonce fetch is the error of the operation, and nothing is
  called after it; once the nonce is fetched and the key decoded the outcome of the
  operation, an error included, is the outcome of the one submission. \<open>viewAccount\<close>
  is the client's \<open>viewAccount\<close>, and an error of the request of
  \<open>getAccountDetails\<close> is its error. Nothing is retried, recovered or rewritten.
\<close>

theorem errors_propagate_unchanged:
  "(NearClient.getNonce (nearClient this) acct s = (Inl e, s1) \<longrightarrow>
      createAccount this new pk amt acct s = (Inl e, s1)
      \<and> addAccessKey this acct pk cid m fo fa s = (Inl e, s1)
      \<and> removeAccessKey this acct pk s = (Inl e, s1))
   \<and> (NearClient.getNonce (nearClient this) acct s = (Inr n, s1) \<and> bs58_decode pk = Inr kb \<longrightarrow>
        (\<exists>t. createAccount this new pk amt acct s =
               NearClient.signAndSubmitTransaction (nearClient this) acct t s1)
        \<and> (\<exists>t. addAccessKey this acct pk cid m fo fa s =
                 NearClient.signAndSubmitTransaction (nearClient this) acct t s1)
        \<and> (\<exists>t. removeAccessKey this acct pk s =
                 NearClient.signAndSubmitTransaction (nearClient this) acct t s1))
   \<and> viewAccount this acct s = NearClient.viewAccount (nearClient this) acct s
   \<and> (NearClient.jsonRpcRequest (nearClient this) (str ''abci_query'')
          [JString (str ''access_key/'' @ acct), JString [], JString (str ''0''), JBool False] s =
        (Inl e, s1) \<longrightarrow>
        getAccountDetails this acct s = (Inl e, s1))"
proof (intro conjI impI)
  assume "NearClient.getNonce (nearClient this) acct s = (Inl e, s1)"
  then show "createAccount this new pk amt acct s = (Inl e, s1)"
    and "addAccessKey this acct pk cid m fo fa s = (Inl e, s1)"
    and "removeAccessKey this acct pk s = (Inl e, s1)"
    by (simp_all add: createAccount_def addAccessKey_def removeAccessKey_def)
next
  assume ok: "NearClient.getNonce (nearClient this) acct s = (Inr n, s1) \<and> bs58_decode pk = Inr kb"
  show "\<exists>t. createAccount this new pk amt acct s =
      NearClient.signAndSubmitTransaction (nearClient this) acct t s1"
    using ok by (intro exI) (rule createAccount_submits, simp_all)
  show "\<exists>t. addAccessKey this acct pk cid m fo fa s =
      NearClient.signAndSubmitTransaction (nearClient this) acct t s1"
    using ok by (intro exI) (rule addAccessKey_submits, simp_all)
  show "\<exists>t. removeAccessKey this acct pk s =
      NearClient.signAndSubmitTransaction (nearClient this) acct t s1"
    using ok by (intro exI) (rule removeAccessKey_submits, simp_all)
next
  show "viewAccount this acct s = NearClient.viewAccount (nearClient this) acct s"
    by (simp add: viewAccount_def)
next
  assume "NearClient.jsonRpcRequest (nearClient this) (str ''abci_query'')
      [JString (str ''access_key/'' @ acct), JString [], JString (str ''0''), JBool False] s =
    (Inl e, s1)"
  then show "getAccountDetails this acct s = (Inl e, s1)"
    by (simp add: getAccountDetails_def)
qed

theorem errors_propagate_unchanged_witness:
  "NearClient.getNonce (nearClient \<lparr>nearClient = stubClient (Inr completed) []\<rparr>)
       (str ''carol'') [] = (Inl (Error ''account does not exist''), [GetNonce (str ''carol'')])
   \<and> createAccount \<lparr>nearClient = stubClient (Inr completed) []\<rparr> (str ''bob'') (str ''2g'') 1000
         (str ''carol'') [] =
       (Inl (Error ''account does not exist''), [GetNonce (str ''carol'')])
   \<and> addAccessKey \<lparr>nearClient = stubClient (Inr completed) []\<rparr> (str ''carol'') (str ''2g'')
         (str ''contractX'') [] [] 10 [] =
       (Inl (Error ''account does not exist''), [GetNonce (str ''carol'')])
   \<and> removeAccessKey \<lparr>nearClient = stubClient (Inr completed) []\<rparr> (str ''carol'')
         (str ''2g'') [] =
       (Inl (Error ''account does not exist''), [GetNonce (str ''carol'')])
   \<and> NearClient.getNonce
         (nearClient \<lparr>nearClient = stubClient (Inl (Error ''nonce conflict'')) []\<rparr>)
         (str ''alice'') [] = (Inr 7, [GetNonce (str ''alice'')])
   \<and> bs58_decode (str ''2g'') = Inr [97]
   \<and> fst (createAccount \<lparr>nearClient = stubClient (Inl (Error ''nonce conflict'')) []\<rparr>
              (str ''bob'') (str ''2g'') 1000 (str ''alice'') []) =
       Inl (Error ''nonce conflict'')
   \<and> fst (addAccessKey \<lparr>nearClient = stubClient (Inl (Error ''nonce conflict'')) []\<rparr>
              (str ''alice'') (str ''2g'') (str ''contractX'') [] [] 10 []) =
       Inl (Error ''nonce conflict'')
   \<and> fst (removeAccessKey \<lparr>nearClient = stubClient (Inl (Error ''nonce conflict'')) []\<rparr>
              (str ''alice'') (str ''2g'') []) =
       Inl (Error ''nonce conflict'')
   \<and> viewAccount \<lparr>nearClient = offlineClient\<rparr> (str ''alice'') [] =
       (Inl (Error ''connection refused''), [ViewAccount (str ''alice'')])
   \<and> getAccountDetails \<lparr>nearClient = offlineClient\<rparr> (str ''alice'') [] =
       (Inl (Error ''connection refused''),
        [JsonRpcRequest (str ''abci_query'')
           [JString (str ''access_key/'' @ str ''alice''), JString [], JString (str ''0''),
            JBool False]])"
proof -
  have unknown: "NearClient.getNonce (nearClient \<lparr>nearClient = stubClient (Inr completed) []\<rparr>)
      (str ''carol'') [] = (Inl (Error ''account does not exist''), [GetNonce (str ''carol'')])"
    by (simp add: stubClient_def str_def)
  have nonce: "NearClient.getNonce
      (nearClient \<lparr>nearClient = stubClient (Inl (Error ''nonce conflict'')) []\<rparr>)
      (str ''alice'') [] = (Inr 7, [GetNonce (str ''alice'')])"
    by (simp add: stubClient_def)
  have key: "bs58_decode (str ''2g'') = Inr [97]"
    by code_simp
  have request: "NearClient.jsonRpcRequest (nearClient \<lparr>nearClient = offlineClient\<rparr>)
      (str ''abci_query'')
      [JString (str ''access_key/'' @ str ''alice''), JString [], JString (str ''0''),
       JBool False] [] =
    (Inl (Error ''connection refused''),
     [JsonRpcRequest (str ''abci_query'')
        [JString (str ''access_key/'' @ str ''alice''), JString [], JString (str ''0''),
         JBool False]])"
    by (simp add: offlineClient_def)
  note rejected =
    errors_propagate_unchanged
      [of "\<lparr>nearClient = stubClient (Inr completed) []\<rparr>" "str ''carol''" "[]"
          "Error ''account does not exist''" "[GetNonce (str ''carol'')]"
          "str ''bob''" "str ''2g''" 1000 "str ''contractX''" "[]" "[]" 10]
  note submitted =
    errors_propagate_unchanged
      [of "\<lparr>nearClient = stubClient (Inl (Error ''nonce conflict'')) []\<rparr>" "str ''alice''" "[]"
          _ "[GetNonce (str ''alice'')]"
          "str ''bob''" "str ''2g''" 1000 "str ''contractX''" "[]" "[]" 10 7 "[97]"]
  note offline =
    errors_propagate_unchanged
      [of "\<lparr>nearClient = offlineClient\<rparr>" "str ''alice''" "[]"
          "Error ''connection refused''"
          "[JsonRpcRequest (str ''abci_query'')
              [JString (str ''access_key/'' @ str ''alice''), JString [], JString (str ''0''),
               JBool False]]"]
  have a: "createAccount \<lparr>nearClient = stubClient (Inr completed) []\<rparr> (str ''bob'') (str ''2g'')
        1000 (str ''carol'') [] =
      (Inl (Error ''account does not exist''), [GetNonce (str ''carol'')])
    \<and> addAccessKey \<lparr>nearClient = stubClient (Inr completed) []\<rparr> (str ''carol'') (str ''2g'')
        (str ''contractX'') [] [] 10 [] =
      (Inl (Error ''account does not exist''), [GetNonce (str ''carol'')])
    \<and> removeAccessKey \<lparr>nearClient = stubClient (Inr completed) []\<rparr> (str ''carol'')
        (str ''2g'') [] =
      (Inl (Error ''account does not exist''), [GetNonce (str ''carol'')])"
    using rejected unknown by blast
  have b: "fst (createAccount \<lparr>nearClient = stubClient (Inl (Error ''nonce conflict'')) []\<rparr>
             (str ''bob'') (str ''2g'') 1000 (str ''alice'') []) =
      Inl (Error ''nonce conflict'')
    \<and> fst (addAccessKey \<lparr>nearClient = stubClient (Inl (Error ''nonce conflict'')) []\<rparr>
             (str ''alice'') (str ''2g'') (str ''contractX'') [] [] 10 []) =
      Inl (Error ''nonce conflict'')
    \<and> fst (removeAccessKey \<lparr>nearClient = stubClient (Inl (Error ''nonce conflict'')) []\<rparr>
             (str ''alice'') (str ''2g'') []) =
      Inl (Error ''nonce conflict'')"
    using submitted nonce key by (auto simp add: stubClient_def)
  have c: "viewAccount \<lparr>nearClient = offlineClient\<rparr> (str ''alice'') [] =
      (Inl (Error ''connection refused''), [ViewAccount (str ''alice'')])
    \<and> getAccountDetails \<lparr>nearClient = offlineClient\<rparr> (str ''alice'') [] =
      (Inl (Error ''connection refused''),
       [JsonRpcRequest (str ''abci_query'')
          [JString (str ''access_key/'' @ str ''alice''), JString [], JString (str ''0''),
           JBool False]])"
    using offline request by (simp add: offlineClient_def)
  show ?thesis
    using unknown nonce key a b c by blast
qed

section \<open>\<open>getAccountDetails\<close>\<close>

text \<open>
  The loop over the keys of the decoded response pushes one record for every entry, in
  the order of the keys. The keys of an object are distinct, so reading the property of a
  key gives the entry of that key.
\<close>

lemma forEach_push_entries:
  assumes "distinct (map fst d)"
    and "set xs \<subseteq> set d"
  shows "forEach_push d (map fst xs) apps =
           Inr (apps @
                map (\<lambda>(key, buffer, info).
                       \<lparr>AuthorizedApp.contractId = contract_id info,
                        AuthorizedApp.amount = AccessKeyInfo.amount info,
                        AuthorizedApp.publicKey = encodeBufferInBs58 buffer\<rparr>) xs)"
  using assms(2)
proof (induction xs arbitrary: apps)
  case Nil
  show ?case by simp
next
  case (Cons x xs)
  obtain key buffer info where x: "x = (key, buffer, info)"
    by (cases x) auto
  from Cons.prems x have "(key, buffer, info) \<in> set d"
    by simp
  with assms(1) have "map_of d key = Some (buffer, info)"
    by (rule map_of_is_SomeI)
  moreover from Cons.prems have "set xs \<subseteq> set d"
    by simp
  ultimately show ?case
    using x by (simp add: Cons.IH)
qed

text \<open>
  Claim C5. Whatever \<open>getAccountDetails\<close> returns has no transactions, and when the
  request and the decoding succeed its \<open>authorizedApps\<close> has, for every entry of the
  decoded response and in their order, exactly one record with the entry's contract id
  and amount and with the base58 encoding of the stored key bytes as \<open>publicKey\<close>.
\<close>

theorem getAccountDetails_authorizedApps:
  "(NearClient.jsonRpcRequest (nearClient this) (str ''abci_query'')
        [JString (str ''access_key/'' @ acct), JString [], JString (str ''0''), JBool False] s =
      (Inr r, s1)
    \<and> NearClient.decodeResponseValue (nearClient this)
          (QueryResult.value (RpcResponse.response r)) = Inr d
    \<and> distinct (map fst d) \<longrightarrow>
    getAccountDetails this acct s =
      (Inr \<lparr>authorizedApps =
              map (\<lambda>(key, buffer, info).
                     \<lparr>AuthorizedApp.contractId = contract_id info,
                      AuthorizedApp.amount = AccessKeyInfo.amount info,
                      AuthorizedApp.publicKey = encodeBufferInBs58 buffer\<rparr>) d,
            transactions = []\<rparr>, s1))
   \<and> (getAccountDetails this acct s = (Inr res, s') \<longrightarrow> transactions res = [])"
proof (intro conjI impI)
  assume ok: "NearClient.jsonRpcRequest (nearClient this) (str ''abci_query'')
        [JString (str ''access_key/'' @ acct), JString [], JString (str ''0''), JBool False] s =
      (Inr r, s1)
    \<and> NearClient.decodeResponseValue (nearClient this)
          (QueryResult.value (RpcResponse.response r)) = Inr d
    \<and> distinct (map fst d)"
  then have "forEach_push d (Object_keys d) [] =
      Inr (map (\<lambda>(key, buffer, info).
                  \<lparr>AuthorizedApp.contractId = contract_id info,
                   AuthorizedApp.amount = AccessKeyInfo.amount info,
                   AuthorizedApp.publicKey = encodeBufferInBs58 buffer\<rparr>) d)"
    using forEach_push_entries [of d d "[]"] by (simp add: Object_keys_def)
  with ok show "getAccountDetails this acct s =
      (Inr \<lparr>authorizedApps =
              map (\<lambda>(key, buffer, info).
                     \<lparr>AuthorizedApp.contractId = contract_id info,
                      AuthorizedApp.amount = AccessKeyInfo.amount info,
                      AuthorizedApp.publicKey = encodeBufferInBs58 buffer\<rparr>) d,
            transactions = []\<rparr>, s1)"
    by (simp add: getAccountDetails_def)
next
  assume "getAccountDetails this acct s = (Inr res, s')"
  then show "transactions res = []"
    by (auto simp add: getAccountDetails_def split: prod.splits sum.splits)
qed

theorem getAccountDetails_authorizedApps_witness:
  "NearClient.jsonRpcRequest
       (nearClient
          \<lparr>nearClient =
             stubClient (Inr completed)
               [(str ''0'', [97], \<lparr>contract_id = Some (str ''contractX''), amount = 10\<rparr>),
                (str ''1'', [0, 0, 1, 2, 3], \<lparr>contract_id = None, amount = 0\<rparr>)]\<rparr>)
       (str ''abci_query'')
       [JString (str ''access_key/'' @ str ''alice''), JString [], JString (str ''0''),
        JBool False] [] =
     (Inr \<lparr>response = \<lparr>value = str ''stored''\<rparr>\<rparr>,
      [JsonRpcRequest (str ''abci_query'')
         [JString (str ''access_key/'' @ str ''alice''), JString [], JString (str ''0''),
          JBool False]])
   \<and> distinct [str ''0'', str ''1'']
   \<and> getAccountDetails
         \<lparr>nearClient =
            stubClient (Inr completed)
              [(str ''0'', [97], \<lparr>contract_id = Some (str ''contractX''), amount = 10\<rparr>),
               (str ''1'', [0, 0, 1, 2, 3], \<lparr>contract_id = None, amount = 0\<rparr>)]\<rparr>
         (str ''alice'') [] =
       (Inr \<lparr>authorizedApps =
               [\<lparr>AuthorizedApp.contractId = Some (str ''contractX''),
                 AuthorizedApp.amount = 10,
                 AuthorizedApp.publicKey = str ''2g''\<rparr>,
                \<lparr>AuthorizedApp.contractId = None,
                 AuthorizedApp.amount = 0,
                 AuthorizedApp.publicKey = str ''11Ldp''\<rparr>],
             transactions = []\<rparr>,
        [JsonRpcRequest (str ''abci_query'')
           [JString (str ''access_key/'' @ str ''alice''), JString [], JString (str ''0''),
            JBool False]])"
proof -
  let ?stored =
    "[(str ''0'', [97], \<lparr>contract_id = Some (str ''contractX''), amount = 10\<rparr>),
      (str ''1'', [0, 0, 1, 2, 3], \<lparr>contract_id = None, amount = 0\<rparr>)] :: decoded"
  have request: "NearClient.jsonRpcRequest
      (nearClient \<lparr>nearClient = stubClient (Inr completed) ?stored\<rparr>) (str ''abci_query'')
      [JString (str ''access_key/'' @ str ''alice''), JString [], JString (str ''0''),
       JBool False] [] =
    (Inr \<lparr>response = \<lparr>value = str ''stored''\<rparr>\<rparr>,
     [JsonRpcRequest (str ''abci_query'')
        [JString (str ''access_key/'' @ str ''alice''), JString [], JString (str ''0''),
         JBool False]])"
    by (simp add: stubClient_def)
  have decoded: "NearClient.decodeResponseValue
      (nearClient \<lparr>nearClient = stubClient (Inr completed) ?stored\<rparr>)
      (QueryResult.value (RpcResponse.response \<lparr>response = \<lparr>value = str ''stored''\<rparr>\<rparr>)) =
    Inr ?stored"
    by (simp add: stubClient_def)
  have keys: "distinct [str ''0'', str ''1'']"
    by (simp add: str_def)
  then have keys': "distinct (map fst ?stored)"
    by simp
  have encoded: "encodeBufferInBs58 [97] = str ''2g''
      \<and> encodeBufferInBs58 [0, 0, 1, 2, 3] = str ''11Ldp''"
    by (simp add: encodeBufferInBs58_def bs58_encode_def from_base_def ALPHABET_def LEADER_def
          str_def)
  show ?thesis
    using getAccountDetails_authorizedApps
            [of "\<lparr>nearClient = stubClient (Inr completed) ?stored\<rparr>" "str ''alice''" "[]"
                "\<lparr>response = \<lparr>value = str ''stored''\<rparr>\<rparr>"
                "[JsonRpcRequest (str ''abci_query'')
                    [JString (str ''access_key/'' @ str ''alice''), JString [],
                     JString (str ''0''), JBool False]]"
                ?stored]
      request decoded keys' keys encoded
    by simp
qed

section \<open>\<open>createAccountWithRandomKey\<close>\<close>

text \<open>
  Claim C6. \<open>createAccountWithRandomKey\<close> is to return the generated key pair as
  \<open>key\<close> together with the fields of the result of the submission, and its own
  documentation says that it returns the key pair to the caller. The object literal sets
  \<open>key\<close> first and spreads the result after it, so a result with a property \<open>key\<close>
  of its own takes the place of the key pair. Here the key pair comes from the entropy
  source, the client resolves the submission to \<open>{status: 'Completed', key: 'k1'}\<close>,
  and \<open>key\<close> of the returned value is \<open>'k1'\<close>: the key pair is not returned.
\<close>

theorem createAccountWithRandomKey_key_overwritten:
  "fixedSeed [] = (keyPair0, [])
   \<and> returned_field
         (createAccountWithRandomKey fixedSeed \<lparr>nearClient = stubClient (Inr keyed) []\<rparr>
            (str ''bob'') 1000 (str ''alice'') []) (str ''key'') = Some (JString (str ''k1''))
   \<and> returned_field
         (createAccountWithRandomKey fixedSeed \<lparr>nearClient = stubClient (Inr keyed) []\<rparr>
            (str ''bob'') 1000 (str ''alice'') []) (str ''key'') \<noteq> Some (JKeyPair keyPair0)"
proof -
  have nonce: "NearClient.getNonce (nearClient \<lparr>nearClient = stubClient (Inr keyed) []\<rparr>)
      (str ''alice'') [] = (Inr 7, [GetNonce (str ''alice'')])"
    by (simp add: stubClient_def)
  have public: "getPublicKey keyPair0 = str ''2g''"
    by (simp add: getPublicKey_def keyPair0_def encodeBufferInBs58_def bs58_encode_def
          from_base_def ALPHABET_def LEADER_def str_def)
  have key: "bs58_decode (str ''2g'') = Inr [97]"
    by code_simp
  have "returned_field
      (createAccountWithRandomKey fixedSeed \<lparr>nearClient = stubClient (Inr keyed) []\<rparr>
         (str ''bob'') 1000 (str ''alice'') []) (str ''key'') = Some (JString (str ''k1''))"
    using createAccount_submits [OF nonce key, of "str ''bob''" 1000]
    by (simp add: createAccountWithRandomKey_def fixedSeed_def public returned_field_def
          stubClient_def keyed_def)
  then show ?thesis
    by (simp add: fixedSeed_def)
qed

section \<open>Base58 round trip\<close>

text \<open>
  The digits of a number in a base, most significant first, and the number of a digit
  sequence are inverse to each other on digit sequences without a leading zero.
\<close>

declare to_base.simps [simp del]

lemma from_base_snoc: "from_base b (ds @ [d]) = from_base b ds * b + d"
  by (simp add: from_base_def)

lemma to_base_0 [simp]: "to_base b 0 = []"
  by (simp add: to_base.simps)

lemma to_base_eq_Nil: "2 \<le> b \<Longrightarrow> to_base b n = [] \<longleftrightarrow> n = 0"
  by (subst to_base.simps) simp

lemma to_base_step:
  "2 \<le> b \<Longrightarrow> 0 < n \<Longrightarrow> to_base b n = to_base b (n div b) @ [n mod b]"
  by (subst to_base.simps) simp

lemma from_base_to_base: "2 \<le> b \<Longrightarrow> from_base b (to_base b n) = n"
proof (induction b n rule: to_base.induct)
  case (1 b n)
  show ?case
  proof (cases "n = 0")
    case True
    then show ?thesis
      by (simp add: to_base.simps from_base_def)
  next
    case False
    with 1 show ?thesis
      by (simp add: to_base_step from_base_snoc)
  qed
qed

lemma to_base_digits: "2 \<le> b \<Longrightarrow> d \<in> set (to_base b n) \<Longrightarrow> d < b"
proof (induction b n rule: to_base.induct)
  case (1 b n)
  show ?case
  proof (cases "n = 0")
    case True
    with 1 show ?thesis
      by (simp add: to_base.simps)
  next
    case False
    with 1 show ?thesis
      by (auto simp add: to_base_step)
  qed
qed

lemma hd_to_base: "2 \<le> b \<Longrightarrow> to_base b n \<noteq> [] \<Longrightarrow> hd (to_base b n) \<noteq> 0"
proof (induction b n rule: to_base.induct)
  case (1 b n)
  from 1 have n: "0 < n"
    by (simp add: to_base_eq_Nil)
  show ?case
  proof (cases "n div b = 0")
    case True
    with 1 n show ?thesis
      by (simp add: to_base_step [of b n] to_base_eq_Nil div_eq_0_iff)
  next
    case False
    with 1 n have "hd (to_base b (n div b)) \<noteq> 0" "to_base b (n div b) \<noteq> []"
      by (simp_all add: to_base_eq_Nil)
    with 1 n show ?thesis
      by (simp add: to_base_step [of b n])
  qed
qed

lemma to_base_from_base:
  assumes "2 \<le> b" and "\<forall>d \<in> set ds. d < b" and "ds \<noteq> [] \<longrightarrow> hd ds \<noteq> 0"
  shows "to_base b (from_base b ds) = ds"
  using assms(2,3)
proof (induction ds rule: rev_induct)
  case Nil
  show ?case
    by (simp add: from_base_def to_base.simps)
next
  case (snoc d ds)
  from snoc.prems have d: "d < b" and ds: "\<forall>d \<in> set ds. d < b"
    by simp_all
  from snoc.prems have lead: "ds \<noteq> [] \<longrightarrow> hd ds \<noteq> 0"
    by (cases ds) simp_all
  from ds lead have IH: "to_base b (from_base b ds) = ds"
    by (rule snoc.IH)
  have pos: "0 < from_base b ds * b + d"
  proof (cases ds)
    case Nil
    with snoc.prems show ?thesis
      by simp
  next
    case Cons
    with IH assms(1) have "from_base b ds \<noteq> 0"
      by (metis list.distinct(1) to_base_eq_Nil)
    with assms(1) show ?thesis
      by simp
  qed
  with assms(1) d IH show ?case
    by (simp add: from_base_snoc to_base_step)
qed

text \<open>
  The alphabet: the index of a character is its first position, the leader is the
  character of index 0.
\<close>

lemma first_index:
  "c \<in> set xs \<Longrightarrow>
     length (takeWhile (\<lambda>a. a \<noteq> c) xs) < length xs
     \<and> xs ! length (takeWhile (\<lambda>a. a \<noteq> c) xs) = c"
  by (induction xs) auto

lemma ALPHABET_length: "length ALPHABET = 58"
  by (simp add: ALPHABET_def str_def)

lemma ALPHABET_MAP_less: "c \<in> set ALPHABET \<Longrightarrow> ALPHABET_MAP c < 58"
  using first_index [of c ALPHABET] by (simp add: ALPHABET_MAP_def ALPHABET_length)

lemma ALPHABET_nth_MAP: "c \<in> set ALPHABET \<Longrightarrow> ALPHABET ! ALPHABET_MAP c = c"
  using first_index [of c ALPHABET] by (simp add: ALPHABET_MAP_def)

lemma ALPHABET_MAP_eq_0: "ALPHABET_MAP c = 0 \<longleftrightarrow> c = LEADER"
proof -
  obtain rest where "ALPHABET = LEADER # rest"
    by (simp add: LEADER_def ALPHABET_def str_def)
  then have "ALPHABET_MAP c = length (takeWhile (\<lambda>a. a \<noteq> c) (LEADER # rest))"
    by (simp add: ALPHABET_MAP_def)
  then show ?thesis
    by auto
qed

text \<open>
  Leading zero octets, and the octets of a number.
\<close>

lemma takeWhile_replicate_append:
  assumes "P a" and "ys \<noteq> [] \<longrightarrow> \<not> P (hd ys)"
  shows "takeWhile P (replicate k a @ ys) = replicate k a
         \<and> dropWhile P (replicate k a @ ys) = ys"
  using assms by (induction k) (auto simp add: takeWhile_eq_Nil_iff dropWhile_eq_self_iff)

lemma byte_of_digit:
  assumes "d < 256"
  shows "unat (of_nat d :: 8 word) = d"
  using assms by (simp add: unat_of_nat)

lemma bytes_of_digits:
  assumes "\<forall>d \<in> set ds. d < 256"
  shows "map unat (map of_nat ds :: bytes) = ds"
  using assms by (simp add: map_idI byte_of_digit)

lemma bs58_encode_decoded:
  assumes valid: "set s \<subseteq> set ALPHABET"
  shows "bs58_encode
           (replicate (length (takeWhile (\<lambda>c. c = LEADER) s)) 0
            @ map of_nat
                (to_base 256 (from_base 58 (map ALPHABET_MAP (dropWhile (\<lambda>c. c = LEADER) s))))) = s"
proof -
  let ?zs = "takeWhile (\<lambda>c. c = LEADER) s"
  let ?rest = "dropWhile (\<lambda>c. c = LEADER) s"
  let ?ds = "map ALPHABET_MAP ?rest"
  let ?n = "from_base 58 ?ds"
  let ?bs = "to_base 256 ?n"
  let ?tail = "map of_nat ?bs :: bytes"
  have rest: "set ?rest \<subseteq> set ALPHABET"
    using valid set_dropWhileD by fastforce
  have digits: "\<forall>d \<in> set ?ds. d < 58"
    using rest by (auto simp add: ALPHABET_MAP_less)
  have lead: "?ds \<noteq> [] \<longrightarrow> hd ?ds \<noteq> 0"
  proof
    assume "?ds \<noteq> []"
    then have "?rest \<noteq> []"
      by simp
    then have "hd ?rest \<noteq> LEADER" "hd ?ds = ALPHABET_MAP (hd ?rest)"
      using hd_dropWhile [of "\<lambda>c. c = LEADER" s] by (simp_all add: hd_map)
    then show "hd ?ds \<noteq> 0"
      by (simp add: ALPHABET_MAP_eq_0)
  qed
  have octets: "\<forall>d \<in> set ?bs. d < 256"
    by (simp add: to_base_digits)
  have first: "?tail \<noteq> [] \<longrightarrow> \<not> hd ?tail = 0"
  proof
    assume "?tail \<noteq> []"
    then have ne: "?bs \<noteq> []"
      by simp
    then have "hd ?bs \<noteq> 0"
      by (simp add: hd_to_base)
    moreover from ne octets have "hd ?bs < 256"
      by simp
    ultimately have "unat (hd ?tail) \<noteq> 0"
      using ne by (simp add: hd_map byte_of_digit)
    then show "\<not> hd ?tail = 0"
      by auto
  qed
  have "takeWhile (\<lambda>b. b = 0) (replicate (length ?zs) 0 @ ?tail) = replicate (length ?zs) 0
      \<and> dropWhile (\<lambda>b. b = 0) (replicate (length ?zs) 0 @ ?tail) = ?tail"
    using first by (intro takeWhile_replicate_append) simp_all
  moreover have "map unat ?tail = ?bs"
    using octets by (rule bytes_of_digits)
  moreover have "from_base 256 ?bs = ?n"
    by (simp add: from_base_to_base)
  moreover have "to_base 58 ?n = ?ds"
    using digits lead by (simp add: to_base_from_base)
  moreover have "map (\<lambda>d. ALPHABET ! d) ?ds = ?rest"
  proof -
    have nth: "\<And>c. c \<in> set ?rest \<Longrightarrow> ALPHABET ! ALPHABET_MAP c = c"
      using rest by (auto simp add: ALPHABET_nth_MAP)
    have "map (\<lambda>c. ALPHABET ! ALPHABET_MAP c) ?rest = ?rest"
      by (rule map_idI) (rule nth)
    then show ?thesis
      by (simp add: o_def)
  qed
  moreover have "replicate (length ?zs) LEADER = ?zs"
    by (rule replicate_length_same) (auto dest: set_takeWhileD)
  ultimately show ?thesis
    by (simp add: bs58_encode_def)
qed

text \<open>
  Claim C8. A valid base58 string, one made of characters of the alphabet, decodes to a
  buffer, and encoding that buffer gives the string back. These are the helpers the
  operations above use: \<open>bs58.decode\<close> for the keys they are given and
  \<open>KeyPair.encodeBufferInBs58\<close> for the keys they return.
\<close>

theorem base58_round_trip:
  assumes "set s \<subseteq> set ALPHABET"
  shows "\<exists>buffer. bs58_decode s = Inr buffer \<and> encodeBufferInBs58 buffer = s"
proof -
  from assms have "bs58_decode s =
      Inr (replicate (length (takeWhile (\<lambda>c. c = LEADER) s)) 0
           @ map of_nat
               (to_base 256
                  (from_base 58 (map ALPHABET_MAP (dropWhile (\<lambda>c. c = LEADER) s)))))"
    by (auto simp add: bs58_decode_def)
  with assms show ?thesis
    by (simp add: encodeBufferInBs58_def bs58_encode_decoded)
qed

theorem base58_round_trip_witness:
  "set (str ''11Ldp'') \<subseteq> set ALPHABET
   \<and> bs58_decode (str ''11Ldp'') = Inr [0, 0, 1, 2, 3]
   \<and> encodeBufferInBs58 [0, 0, 1, 2, 3] = str ''11Ldp''"
proof -
  have valid: "set (str ''11Ldp'') \<subseteq> set ALPHABET"
    by (simp add: ALPHABET_def str_def)
  have decoded: "bs58_decode (str ''11Ldp'') = Inr [0, 0, 1, 2, 3]"
    by (simp add: bs58_decode_def ALPHABET_def LEADER_def ALPHABET_MAP_def from_base_def str_def
          to_base.simps)
  show ?thesis
    using base58_round_trip [OF valid] valid decoded by auto
qed

end
